theory Spec2Isabelle
  imports Complex_Main
begin

section \<open>Go values used by the service\<close>

text \<open>
  A Go string is a sequence of bytes and \<open>len\<close> counts bytes, so a Go string is a
  \<^typ>\<open>string\<close> and \<open>len\<close> is \<^const>\<open>length\<close>. A Go \<open>int\<close> only meets
  comparisons here, never arithmetic, so it is an \<^typ>\<open>int\<close>. A slice that the service
  keeps apart from \<open>nil\<close> is an optional list: \<open>None\<close> is the \<open>nil\<close> slice.
\<close>

type_synonym 'a slice = "'a list option"

definition len :: "'a slice \<Rightarrow> nat" where
  "len xs = (case xs of None \<Rightarrow> 0 | Some ys \<Rightarrow> length ys)"

text \<open>The UTF-8 bytes of the accented letters in the messages of the source.\<close>

definition a_acute :: string where "a_acute = [CHR 0xC3, CHR 0xA1]"
definition a_tilde :: string where "a_tilde = [CHR 0xC3, CHR 0xA3]"
definition c_cedil :: string where "c_cedil = [CHR 0xC3, CHR 0xA7]"
definition e_acute :: string where "e_acute = [CHR 0xC3, CHR 0xA9]"
definition i_acute :: string where "i_acute = [CHR 0xC3, CHR 0xAD]"
definition o_acute :: string where "o_acute = [CHR 0xC3, CHR 0xB3]"
definition u_acute :: string where "u_acute = [CHR 0xC3, CHR 0xBA]"

text \<open>
  \<open>time.Time\<close> and \<open>time.Duration\<close> in nanoseconds. \<open>Sub\<close> saturates at the ends of
  the 64-bit range, \<open>Milliseconds\<close> divides truncating toward zero, \<open>Unix\<close> gives
  whole seconds.
\<close>

type_synonym time = int
type_synonym duration = int

definition Second :: duration where
  "Second = 1000000000"

definition maxDuration :: duration where
  "maxDuration = 2 ^ 63 - 1"

definition minDuration :: duration where
  "minDuration = - (2 ^ 63)"

definition Add :: "time \<Rightarrow> duration \<Rightarrow> time" where
  "Add t d = t + d"

definition Sub :: "time \<Rightarrow> time \<Rightarrow> duration" where
  "Sub t u = (let d = t - u in
     if d > maxDuration then maxDuration else if d < minDuration then minDuration else d)"

definition Milliseconds :: "duration \<Rightarrow> int" where
  "Milliseconds d = (if 0 \<le> d then d div 1000000 else - ((- d) div 1000000))"

definition Unix :: "time \<Rightarrow> int" where
  "Unix t = t div 1000000000"

text \<open>
  A \<open>context.Context\<close> as the chain of derivations that made it: the service only
  passes contexts on and derives deadlines from them.
\<close>

datatype "context" = Background | WithCancel "context" | WithDeadline "context" time

fun Deadline :: "context \<Rightarrow> time option" where
  "Deadline Background = None"
| "Deadline (WithCancel parent) = Deadline parent"
| "Deadline (WithDeadline parent d) =
     (case Deadline parent of
        None \<Rightarrow> Some d
      | Some cur \<Rightarrow> if cur < d then Some cur else Some d)"

text \<open>A value of type \<open>interface{}\<close> as \<open>encoding/json\<close> produces it.\<close>

datatype any =
    ANil
  | ABool bool
  | AFloat64 real
  | AString string
  | AList "any list"
  | AMap "(string \<times> any) list"

section \<open>internal/domain\<close>

datatype error =
    ErrDocumentNotFound
  | ErrDocumentInvalid
  | ErrDocumentExists
  | ErrQueryEmpty
  | ErrQueryTooShort
  | ErrQueryTooLong
  | ErrRepositoryUnavailable
  | ErrRepositoryTimeout
  | ErrLLMUnavailable
  | ErrLLMTimeout
  | ErrLLMQuotaExceeded
  | ErrLLMInvalidResponse
  | ErrConfigInvalid
  | ErrConfigMissing
  | ErrInternalServer
  | ErrServiceUnavailable
  | ValidationError (Field: string) (Message: string)
  | Errorf string error
  | OtherError string

text \<open>
  \<^const>\<open>Errorf\<close> \<open>msg err\<close> is \<open>fmt.Errorf(msg + ": %w", err)\<close>; \<^const>\<open>OtherError\<close>
  is any error value of a collaborator or of the standard library.
\<close>

definition NewValidationError :: "string \<Rightarrow> string \<Rightarrow> error" where
  "NewValidationError field message = ValidationError field message"

text \<open>The records carry the field names of the Go structs behind a prefix for the struct.\<close>

record Document =
  doc_ID :: string
  doc_Title :: string
  doc_Content :: string
  doc_Link :: string
  doc_Category :: string
  doc_Metadata :: "string \<rightharpoonup> string"
  doc_CreatedAt :: time
  doc_UpdatedAt :: time

record RAGRequest =
  req_Query :: string
  req_UserID :: string
  req_SessionID :: string
  req_MaxResults :: int
  req_Category :: string
  req_Metadata :: "string \<rightharpoonup> string"

record RAGResponse =
  resp_Answer :: string
  resp_Sources :: "Document slice"
  resp_Query :: string
  resp_ProcessingTime :: int
  resp_SearchPerformed :: bool
  resp_Model :: string
  resp_TokensUsed :: int

record ConversationMessage =
  msg_Role :: string
  msg_Content :: string
  msg_ToolCall :: string
  msg_ToolID :: string
  msg_Timestamp :: int

record ToolCall =
  tc_ID :: string
  tc_Name :: string
  tc_Arguments :: string

text \<open>\<open>ToolCalls\<close> is only measured and ranged over, so its \<open>nil\<close> is the empty list.\<close>

record LLMResponse =
  llm_Content :: string
  llm_ToolCalls :: "ToolCall list"
  llm_TokensUsed :: int
  llm_Model :: string
  llm_FinishReason :: string

record Tool =
  tool_Name :: string
  tool_Description :: string
  tool_Parameters :: "(string \<times> any) list"

section \<open>Collaborators, the world and the trace\<close>

text \<open>
  The document repository and the LLM client are interfaces: records of functions over a
  world \<open>'w\<close> that they may read and change. A call that returns no error returns a
  response, as the Go convention has it. \<open>Insert\<close> receives a pointer, so it also
  returns the document as it left it. The repository's other methods are never called by
  the service.
\<close>

record 'w DocumentRepository =
  repo_Search :: "context \<Rightarrow> string \<Rightarrow> int \<Rightarrow> 'w \<Rightarrow> (error + Document slice) \<times> 'w"
  repo_Insert :: "context \<Rightarrow> Document \<Rightarrow> 'w \<Rightarrow> (error option \<times> Document) \<times> 'w"
  repo_HealthCheck :: "context \<Rightarrow> 'w \<Rightarrow> error option \<times> 'w"

record 'w LLMClient =
  client_GenerateResponse ::
    "context \<Rightarrow> ConversationMessage list \<Rightarrow> Tool list \<Rightarrow> 'w \<Rightarrow> (error + LLMResponse) \<times> 'w"
  client_HealthCheck :: "context \<Rightarrow> 'w \<Rightarrow> error option \<times> 'w"

text \<open>
  What the service takes from the standard library: the clock and the JSON codec, for any
  behaviour they may have. \<open>json.Unmarshal\<close> decodes into a \<open>map[string]interface{}\<close>
  that is only read by key, so a \<open>nil\<close> map is the empty map. The tools of a call are a
  list, \<open>nil\<close> being the empty list.
\<close>

record 'w stdlib =
  time_Now :: "'w \<Rightarrow> time \<times> 'w"
  json_Unmarshal :: "string \<Rightarrow> error + (string \<rightharpoonup> any)"
  json_Marshal :: "Document slice \<Rightarrow> error + string"

record RAGConfig =
  MaxSearchResults :: int
  SearchTimeout :: duration
  LLMTimeout :: duration

record 'w RAGServiceImpl =
  docRepo :: "'w DocumentRepository"
  llmClient :: "'w LLMClient"
  config :: RAGConfig
  runtime :: "'w stdlib"

text \<open>Every call to a collaborator is recorded with its arguments and its result.\<close>

datatype call =
    SearchCall "context" string int "error + Document slice"
  | InsertCall "context" Document "error option"
  | RepoHealthCheckCall "context" "error option"
  | GenerateResponseCall "context" "ConversationMessage list" "Tool list" "error + LLMResponse"
  | LLMHealthCheckCall "context" "error option"

text \<open>
  The logger keeps the level and the message of each entry; the attributes are left out.
  \<open>WithTimeout\<close> reads the clock and derives the deadline; the deferred \<open>cancel\<close>
  has no effect on the model.
\<close>

datatype level = Debug | Info | Error

record 'w state =
  world :: 'w
  calls :: "call list"
  logs :: "(level \<times> string) list"

definition logger :: "level \<Rightarrow> string \<Rightarrow> 'w state \<Rightarrow> 'w state" where
  "logger lvl msg st = st\<lparr>logs := logs st @ [(lvl, msg)]\<rparr>"

definition Now :: "'w RAGServiceImpl \<Rightarrow> 'w state \<Rightarrow> time \<times> 'w state" where
  "Now s st = (case time_Now (runtime s) (world st) of (t, w) \<Rightarrow> (t, st\<lparr>world := w\<rparr>))"

definition WithTimeout ::
  "'w RAGServiceImpl \<Rightarrow> context \<Rightarrow> duration \<Rightarrow> 'w state \<Rightarrow> context \<times> 'w state" where
  "WithTimeout s parent timeout st =
     (case Now s st of (t, st') \<Rightarrow> (WithDeadline parent (Add t timeout), st'))"

definition Search ::
  "'w RAGServiceImpl \<Rightarrow> context \<Rightarrow> string \<Rightarrow> int \<Rightarrow> 'w state
     \<Rightarrow> (error + Document slice) \<times> 'w state" where
  "Search s ctx query limit st =
     (case repo_Search (docRepo s) ctx query limit (world st) of
        (r, w) \<Rightarrow> (r, st\<lparr>world := w, calls := calls st @ [SearchCall ctx query limit r]\<rparr>))"

definition Insert ::
  "'w RAGServiceImpl \<Rightarrow> context \<Rightarrow> Document \<Rightarrow> 'w state
     \<Rightarrow> (error option \<times> Document) \<times> 'w state" where
  "Insert s ctx doc st =
     (case repo_Insert (docRepo s) ctx doc (world st) of
        ((r, doc'), w) \<Rightarrow>
          ((r, doc'), st\<lparr>world := w, calls := calls st @ [InsertCall ctx doc r]\<rparr>))"

definition RepoHealthCheck ::
  "'w RAGServiceImpl \<Rightarrow> context \<Rightarrow> 'w state \<Rightarrow> error option \<times> 'w state" where
  "RepoHealthCheck s ctx st =
     (case repo_HealthCheck (docRepo s) ctx (world st) of
        (r, w) \<Rightarrow> (r, st\<lparr>world := w, calls := calls st @ [RepoHealthCheckCall ctx r]\<rparr>))"

definition GenerateResponse ::
  "'w RAGServiceImpl \<Rightarrow> context \<Rightarrow> ConversationMessage list \<Rightarrow> Tool list \<Rightarrow> 'w state
     \<Rightarrow> (error + LLMResponse) \<times> 'w state" where
  "GenerateResponse s ctx messages tools st =
     (case client_GenerateResponse (llmClient s) ctx messages tools (world st) of
        (r, w) \<Rightarrow>
          (r, st\<lparr>world := w,
                 calls := calls st @ [GenerateResponseCall ctx messages tools r]\<rparr>))"

definition LLMHealthCheck ::
  "'w RAGServiceImpl \<Rightarrow> context \<Rightarrow> 'w state \<Rightarrow> error option \<times> 'w state" where
  "LLMHealthCheck s ctx st =
     (case client_HealthCheck (llmClient s) ctx (world st) of
        (r, w) \<Rightarrow> (r, st\<lparr>world := w, calls := calls st @ [LLMHealthCheckCall ctx r]\<rparr>))"

section \<open>internal/infrastructure/llm\<close>

definition CreateSearchTool :: Tool where
  "CreateSearchTool =
     \<lparr>tool_Name = ''search_metadata'',
      tool_Description = ''Search metadata in database or API from a query'',
      tool_Parameters =
        [(''type'', AString ''object''),
         (''properties'',
            AMap [(''query'',
                     AMap [(''type'', AString ''string''),
                           (''description'', AString ''Text to search in metadata'')])]),
         (''required'', AList [AString ''query''])]\<rparr>"

definition ParseToolArguments :: "'w stdlib \<Rightarrow> string \<Rightarrow> error + (string \<rightharpoonup> any)" where
  "ParseToolArguments lib arguments =
     (case json_Unmarshal lib arguments of
        Inl err \<Rightarrow> Inl (Errorf ''erro ao fazer parse dos argumentos'' err)
      | Inr args \<Rightarrow> Inr args)"

section \<open>internal/service\<close>

definition validateRequest ::
  "'w RAGServiceImpl \<Rightarrow> RAGRequest option \<Rightarrow> error option \<times> RAGRequest option" where
  "validateRequest s req =
     (case req of
        None \<Rightarrow>
          (Some (NewValidationError ''request''
                   (''requisi'' @ c_cedil @ a_tilde @ ''o n'' @ a_tilde @ ''o pode ser nula'')),
           None)
      | Some r \<Rightarrow>
          if req_Query r = [] then (Some ErrQueryEmpty, Some r)
          else if length (req_Query r) < 3 then (Some ErrQueryTooShort, Some r)
          else if length (req_Query r) > 1000 then (Some ErrQueryTooLong, Some r)
          else if req_MaxResults r \<le> 0
            then (None, Some (r\<lparr>req_MaxResults := MaxSearchResults (config s)\<rparr>))
          else (None, Some r))"

definition validateDocument :: "'w RAGServiceImpl \<Rightarrow> Document \<Rightarrow> error option" where
  "validateDocument s doc =
     (if doc_Title doc = []
        then Some (NewValidationError ''title''
                     (''t'' @ i_acute @ ''tulo '' @ e_acute @ '' obrigat'' @ o_acute @ ''rio''))
      else if doc_Content doc = []
        then Some (NewValidationError ''content''
                     (''conte'' @ u_acute @ ''do '' @ e_acute @ '' obrigat'' @ o_acute @ ''rio''))
      else if length (doc_Title doc) > 200
        then Some (NewValidationError ''title''
                     (''t'' @ i_acute @ ''tulo muito longo (m'' @ a_acute
                        @ ''ximo 200 caracteres)''))
      else if length (doc_Content doc) > 10000
        then Some (NewValidationError ''content''
                     (''conte'' @ u_acute @ ''do muito longo (m'' @ a_acute
                        @ ''ximo 10000 caracteres)''))
      else None)"

definition SearchDocuments ::
  "'w RAGServiceImpl \<Rightarrow> context \<Rightarrow> string \<Rightarrow> int \<Rightarrow> 'w state
     \<Rightarrow> (error + Document slice) \<times> 'w state" where
  "SearchDocuments s ctx query limit st =
     (if query = [] then (Inl ErrQueryEmpty, st)
      else
        let limit' = (if limit \<le> 0 then MaxSearchResults (config s) else limit)
        in case WithTimeout s ctx (SearchTimeout (config s)) st of
             (searchCtx, st1) \<Rightarrow>
               (case Search s searchCtx query limit' st1 of
                  (Inl err, st2) \<Rightarrow>
                    (Inl (Errorf ''erro na busca de documentos'' err),
                     logger Error ''erro ao buscar documentos'' st2)
                | (Inr documents, st2) \<Rightarrow>
                    (Inr documents, logger Debug ''busca realizada com sucesso'' st2)))"

definition AddDocument ::
  "'w RAGServiceImpl \<Rightarrow> context \<Rightarrow> Document option \<Rightarrow> 'w state
     \<Rightarrow> (error option \<times> Document option) \<times> 'w state" where
  "AddDocument s ctx doc st =
     (case doc of
        None \<Rightarrow> ((Some ErrDocumentInvalid, None), st)
      | Some d \<Rightarrow>
          (case validateDocument s d of
             Some err \<Rightarrow> ((Some err, Some d), st)
           | None \<Rightarrow>
               (case Insert s ctx d st of
                  ((Some err, d'), st1) \<Rightarrow>
                    ((Some (Errorf ''erro ao adicionar documento'' err), Some d'),
                     logger Error ''erro ao inserir documento'' st1)
                | ((None, d'), st1) \<Rightarrow>
                    ((None, Some d'), logger Info ''documento adicionado com sucesso'' st1))))"

definition HealthCheck ::
  "'w RAGServiceImpl \<Rightarrow> context \<Rightarrow> 'w state \<Rightarrow> error option \<times> 'w state" where
  "HealthCheck s ctx st =
     (case RepoHealthCheck s ctx st of
        (Some err, st1) \<Rightarrow>
          (Some (Errorf (''reposit'' @ o_acute @ ''rio indispon'' @ i_acute @ ''vel'') err), st1)
      | (None, st1) \<Rightarrow>
          (case LLMHealthCheck s ctx st1 of
             (Some err, st2) \<Rightarrow>
               (Some (Errorf (''cliente LLM indispon'' @ i_acute @ ''vel'') err), st2)
           | (None, st2) \<Rightarrow> (None, st2)))"

text \<open>The variables that the loop over the tool calls of \<open>ProcessQuery\<close> updates.\<close>

record vars =
  messages :: "ConversationMessage list"
  sources :: "Document slice"
  searchPerformed :: bool

text \<open>The body of the loop, for one tool call; \<open>continue\<close> leaves it early.\<close>

definition ProcessQuery_toolCall ::
  "'w RAGServiceImpl \<Rightarrow> context \<Rightarrow> RAGRequest \<Rightarrow> ToolCall \<Rightarrow> vars \<Rightarrow> 'w state
     \<Rightarrow> vars \<times> 'w state" where
  "ProcessQuery_toolCall s ctx req toolCall v st =
     (if tc_Name toolCall = ''search_metadata'' then
        let v1 = v\<lparr>searchPerformed := True\<rparr>
        in case ParseToolArguments (runtime s) (tc_Arguments toolCall) of
             Inl err \<Rightarrow> (v1, logger Error ''erro ao fazer parse dos argumentos'' st)
           | Inr args \<Rightarrow>
               (case args ''query'' of
                  Some (AString query) \<Rightarrow>
                    (case SearchDocuments s ctx query (req_MaxResults req)
                            (logger Info ''executando busca'' st) of
                       (r, st1) \<Rightarrow>
                         (case (case r of
                                  Inl err \<Rightarrow> (Some [], logger Error ''erro na busca'' st1)
                                | Inr docs \<Rightarrow> (docs, st1)) of
                            (searchResults, st2) \<Rightarrow>
                              (case (case json_Marshal (runtime s) searchResults of
                                       Inl err \<Rightarrow>
                                         (''[]'',
                                          logger Error ''erro ao converter resultados para JSON'' st2)
                                     | Inr js \<Rightarrow> (js, st2)) of
                                 (resultsJSON, st3) \<Rightarrow>
                                   (case Now s st3 of
                                      (t, st4) \<Rightarrow>
                                        (v1\<lparr>sources := searchResults,
                                            messages := messages v1 @
                                              [\<lparr>msg_Role = ''tool'',
                                                msg_Content = resultsJSON,
                                                msg_ToolCall = tc_Name toolCall,
                                                msg_ToolID = tc_ID toolCall,
                                                msg_Timestamp = Unix t\<rparr>]\<rparr>,
                                         st4)))))
                | _ \<Rightarrow>
                    (v1, logger Error (''query n'' @ a_tilde @ ''o encontrada nos argumentos'') st))
      else (v, st))"

fun ProcessQuery_toolCalls ::
  "'w RAGServiceImpl \<Rightarrow> context \<Rightarrow> RAGRequest \<Rightarrow> ToolCall list \<Rightarrow> vars \<Rightarrow> 'w state
     \<Rightarrow> vars \<times> 'w state" where
  "ProcessQuery_toolCalls s ctx req [] v st = (v, st)"
| "ProcessQuery_toolCalls s ctx req (toolCall # rest) v st =
     (case ProcessQuery_toolCall s ctx req toolCall v st of
        (v', st') \<Rightarrow> ProcessQuery_toolCalls s ctx req rest v' st')"

text \<open>The end of \<open>ProcessQuery\<close>: the timer is read and the response is built.\<close>

definition ProcessQuery_respond ::
  "'w RAGServiceImpl \<Rightarrow> RAGRequest \<Rightarrow> time \<Rightarrow> LLMResponse \<Rightarrow> Document slice \<Rightarrow> bool
     \<Rightarrow> 'w state \<Rightarrow> RAGResponse \<times> 'w state" where
  "ProcessQuery_respond s req start llmResp srcs performed st =
     (case Now s st of
        (t, st1) \<Rightarrow>
          (\<lparr>resp_Answer = llm_Content llmResp,
            resp_Sources = srcs,
            resp_Query = req_Query req,
            resp_ProcessingTime = Milliseconds (Sub t start),
            resp_SearchPerformed = performed,
            resp_Model = llm_Model llmResp,
            resp_TokensUsed = llm_TokensUsed llmResp\<rparr>,
           logger Info ''query processada com sucesso'' st1))"

text \<open>
  \<open>ProcessQuery\<close> returns the response or the error, and the request as the call left it
  (the caller's pointer). After a validation without error the request is not \<open>nil\<close>;
  the branch that would dereference \<open>nil\<close> is a panic.
\<close>

datatype 'a outcome = Returns 'a | Panics

definition ProcessQuery ::
  "'w RAGServiceImpl \<Rightarrow> context \<Rightarrow> RAGRequest option \<Rightarrow> 'w state
     \<Rightarrow> ((error + RAGResponse) outcome \<times> RAGRequest option) \<times> 'w state" where
  "ProcessQuery s ctx req st =
     (case Now s st of
        (start, st0) \<Rightarrow>
          (case validateRequest s req of
             (Some err, req') \<Rightarrow> ((Returns (Inl err), req'), st0)
           | (None, None) \<Rightarrow> ((Panics, None), st0)
           | (None, Some r) \<Rightarrow>
               (case Now s (logger Info ''processando query RAG'' st0) of
                  (t1, st1) \<Rightarrow>
                    let msgs = [\<lparr>msg_Role = ''user'', msg_Content = req_Query r,
                                 msg_ToolCall = [], msg_ToolID = [],
                                 msg_Timestamp = Unix t1\<rparr>];
                        tools = [CreateSearchTool]
                    in case GenerateResponse s ctx msgs tools st1 of
                         (Inl err, st2) \<Rightarrow>
                           ((Returns (Inl (Errorf ''erro ao gerar resposta'' err)), Some r),
                            logger Error ''erro na primeira chamada ao LLM'' st2)
                       | (Inr llmResp, st2) \<Rightarrow>
                           if length (llm_ToolCalls llmResp) > 0 then
                             (case Now s st2 of
                                (t2, st3) \<Rightarrow>
                                  (case ProcessQuery_toolCalls s ctx r (llm_ToolCalls llmResp)
                                          \<lparr>messages = msgs @
                                             [\<lparr>msg_Role = ''assistant'',
                                               msg_Content = llm_Content llmResp,
                                               msg_ToolCall = [], msg_ToolID = [],
                                               msg_Timestamp = Unix t2\<rparr>],
                                           sources = None,
                                           searchPerformed = False\<rparr> st3 of
                                     (v, st4) \<Rightarrow>
                                       (case GenerateResponse s ctx (messages v) [] st4 of
                                          (Inl err, st5) \<Rightarrow>
                                            ((Returns (Inl (Errorf ''erro ao gerar resposta final''
                                                              err)), Some r),
                                             logger Error ''erro na segunda chamada ao LLM'' st5)
                                        | (Inr finalResp, st5) \<Rightarrow>
                                            (case ProcessQuery_respond s r start finalResp
                                                    (sources v) (searchPerformed v) st5 of
                                               (response, st6) \<Rightarrow>
                                                 ((Returns (Inr response), Some r), st6)))))
                           else
                             (case ProcessQuery_respond s r start llmResp None False st2 of
                                (response, st3) \<Rightarrow>
                                  ((Returns (Inr response), Some r), st3)))))"

section \<open>Reading an execution\<close>

text \<open>
  The query that a tool call hands to the search, when the loop body gets that far: the
  name is \<open>search_metadata\<close>, the arguments decode, and their field \<open>query\<close> is a string.
  In every other case the body ends before the search.
\<close>

definition toolQuery :: "'w stdlib \<Rightarrow> ToolCall \<Rightarrow> string option" where
  "toolQuery lib toolCall =
     (if tc_Name toolCall = ''search_metadata'' then
        (case ParseToolArguments lib (tc_Arguments toolCall) of
           Inl err \<Rightarrow> None
         | Inr args \<Rightarrow> (case args ''query'' of Some (AString query) \<Rightarrow> Some query | _ \<Rightarrow> None))
      else None)"

text \<open>What the loop keeps of a search: its documents, or the empty slice when it failed.\<close>

definition recorded :: "error + Document slice \<Rightarrow> Document slice" where
  "recorded r = (case r of Inl err \<Rightarrow> Some [] | Inr docs \<Rightarrow> docs)"

text \<open>
  The calls that the loop adds to the trace are searches under a deadline derived from
  \<open>ctx\<close>, and the sources after the loop are the ones before it, the empty slice, or the
  documents of one of these searches.
\<close>

definition searchTrace :: "context \<Rightarrow> Document slice \<Rightarrow> Document slice \<Rightarrow> call list \<Rightarrow> bool" where
  "searchTrace ctx before after sevs \<longleftrightarrow>
     (\<forall>e\<in>set sevs. \<exists>t q l res. e = SearchCall (WithDeadline ctx t) q l res)
     \<and> (after = before \<or> after = Some []
          \<or> (\<exists>c q l docs. SearchCall c q l (Inr docs) \<in> set sevs \<and> after = docs))"

fun callContext :: "call \<Rightarrow> context" where
  "callContext (SearchCall c q l r) = c"
| "callContext (InsertCall c d r) = c"
| "callContext (RepoHealthCheckCall c r) = c"
| "callContext (GenerateResponseCall c m ts r) = c"
| "callContext (LLMHealthCheckCall c r) = c"

text \<open>A caller that invokes \<open>HealthCheck\<close> \<open>n\<close> times in a row and keeps the results.\<close>

fun HealthCheck_repeated ::
  "'w RAGServiceImpl \<Rightarrow> context \<Rightarrow> nat \<Rightarrow> 'w state \<Rightarrow> error option list \<times> 'w state" where
  "HealthCheck_repeated s ctx 0 st = ([], st)"
| "HealthCheck_repeated s ctx (Suc n) st =
     (case HealthCheck s ctx st of
        (r, st1) \<Rightarrow>
          (case HealthCheck_repeated s ctx n st1 of (rs, st2) \<Rightarrow> (r # rs, st2)))"

section \<open>Test doubles\<close>

text \<open>
  In-memory collaborators for the examples. The world is the clock, which advances by a
  millisecond at each reading. The decoder knows the argument strings of the examples and
  rejects every other input; the encoder writes the titles.
\<close>

definition testUnmarshal :: "string \<Rightarrow> error + (string \<rightharpoonup> any)" where
  \<open>testUnmarshal arguments =
     (if arguments = ''{"query":"golang"}'' then Inr [''query'' \<mapsto> AString ''golang'']
      else if arguments = ''{"query":"rust"}'' then Inr [''query'' \<mapsto> AString ''rust'']
      else if arguments = ''{}'' then Inr Map.empty
      else Inl (OtherError ''invalid character''))\<close>

definition testMarshal :: "Document slice \<Rightarrow> error + string" where
  \<open>testMarshal docs =
     Inr (case docs of
            None \<Rightarrow> ''null''
          | Some ds \<Rightarrow>
              ''['' @ concat (map (\<lambda>d. ''{"title":"'' @ doc_Title d @ ''"}'') ds) @ '']'')\<close>

definition testLib :: "int stdlib" where
  "testLib = \<lparr>time_Now = (\<lambda>w. (w, w + 1000000)),
              json_Unmarshal = testUnmarshal,
              json_Marshal = testMarshal\<rparr>"

text \<open>The client answers a call that declares tools with \<open>round1\<close>, any other with \<open>round2\<close>.\<close>

definition testLLM :: "error + LLMResponse \<Rightarrow> error + LLMResponse \<Rightarrow> int LLMClient" where
  "testLLM round1 round2 =
     \<lparr>client_GenerateResponse =
        (\<lambda>ctx msgs tools w. (if tools \<noteq> [] then round1 else round2, w)),
      client_HealthCheck =
        (\<lambda>ctx w. (case round2 of
                     Inl err \<Rightarrow> Some (Errorf ''health check falhou'' err)
                   | Inr r \<Rightarrow> None, w))\<rparr>"

definition testRepo ::
  "(string \<Rightarrow> error + Document slice) \<Rightarrow> error option \<Rightarrow> int DocumentRepository" where
  "testRepo found health =
     \<lparr>repo_Search = (\<lambda>ctx query limit w. (found query, w)),
      repo_Insert = (\<lambda>ctx doc w. ((None, doc\<lparr>doc_ID := ''id-1''\<rparr>), w)),
      repo_HealthCheck = (\<lambda>ctx w. (health, w))\<rparr>"

definition testConfig :: RAGConfig where
  "testConfig =
     \<lparr>MaxSearchResults = 5, SearchTimeout = 10 * Second, LLMTimeout = 30 * Second\<rparr>"

definition testService :: "int LLMClient \<Rightarrow> int DocumentRepository \<Rightarrow> int RAGServiceImpl" where
  "testService llm repo =
     \<lparr>docRepo = repo, llmClient = llm, config = testConfig, runtime = testLib\<rparr>"

definition st0 :: "int state" where
  "st0 = \<lparr>world = 0, calls = [], logs = []\<rparr>"

definition testRequest :: "string \<Rightarrow> int \<Rightarrow> RAGRequest" where
  "testRequest q n =
     \<lparr>req_Query = q, req_UserID = ''u1'', req_SessionID = ''s1'', req_MaxResults = n,
      req_Category = [], req_Metadata = Map.empty\<rparr>"

definition testDocument :: "string \<Rightarrow> string \<Rightarrow> Document" where
  "testDocument title content =
     \<lparr>doc_ID = [], doc_Title = title, doc_Content = content,
      doc_Link = ''https://example.com'', doc_Category = ''golang'',
      doc_Metadata = Map.empty, doc_CreatedAt = 0, doc_UpdatedAt = 0\<rparr>"

definition goDocument :: Document where
  "goDocument = testDocument ''Go performance'' ''Profiling with pprof''"

definition golangOnly :: "string \<Rightarrow> error + Document slice" where
  "golangOnly query =
     (if query = ''golang'' then Inr (Some [goDocument]) else Inl ErrRepositoryTimeout)"

definition toolCallsResponse :: "ToolCall list \<Rightarrow> LLMResponse" where
  "toolCallsResponse tcs =
     \<lparr>llm_Content = [], llm_ToolCalls = tcs, llm_TokensUsed = 40,
      llm_Model = ''gpt-4-turbo-preview'', llm_FinishReason = ''tool_calls''\<rparr>"

definition textResponse :: "string \<Rightarrow> LLMResponse" where
  "textResponse content =
     \<lparr>llm_Content = content, llm_ToolCalls = [], llm_TokensUsed = 70,
      llm_Model = ''gpt-4-turbo-preview'', llm_FinishReason = ''stop''\<rparr>"

definition searchCall :: "string \<Rightarrow> string \<Rightarrow> ToolCall" where
  "searchCall ident arguments =
     \<lparr>tc_ID = ident, tc_Name = ''search_metadata'', tc_Arguments = arguments\<rparr>"

definition golangCall :: ToolCall where
  \<open>golangCall = searchCall ''call_1'' ''{"query":"golang"}''\<close>

definition rustCall :: ToolCall where
  \<open>rustCall = searchCall ''call_2'' ''{"query":"rust"}''\<close>

definition brokenCall :: ToolCall where
  "brokenCall = searchCall ''call_3'' ''not json''"

definition weatherCall :: ToolCall where
  "weatherCall = \<lparr>tc_ID = ''call_4'', tc_Name = ''get_weather'', tc_Arguments = ''{}''\<rparr>"

definition userMessage :: "string \<Rightarrow> ConversationMessage" where
  "userMessage q =
     \<lparr>msg_Role = ''user'', msg_Content = q, msg_ToolCall = [], msg_ToolID = [],
      msg_Timestamp = 0\<rparr>"

definition assistantMessage :: "string \<Rightarrow> ConversationMessage" where
  "assistantMessage content =
     \<lparr>msg_Role = ''assistant'', msg_Content = content, msg_ToolCall = [], msg_ToolID = [],
      msg_Timestamp = 0\<rparr>"

text \<open>The services of the examples: what the LLM answers in each round, and the store.\<close>

definition directService :: "int RAGServiceImpl" where
  "directService =
     testService (testLLM (Inr (textResponse ''Go is a language.'')) (Inr (textResponse ''final'')))
       (testRepo golangOnly None)"

definition toolService :: "ToolCall list \<Rightarrow> int RAGServiceImpl" where
  "toolService tcs =
     testService (testLLM (Inr (toolCallsResponse tcs)) (Inr (textResponse ''final'')))
       (testRepo golangOnly None)"

definition repoDownService :: "int RAGServiceImpl" where
  "repoDownService =
     testService (testLLM (Inr (toolCallsResponse [golangCall])) (Inr (textResponse ''final'')))
       (testRepo (\<lambda>query. Inl ErrRepositoryTimeout) (Some ErrRepositoryUnavailable))"

definition round2DownService :: "int RAGServiceImpl" where
  "round2DownService =
     testService (testLLM (Inr (toolCallsResponse [golangCall])) (Inl ErrLLMTimeout))
       (testRepo golangOnly None)"

definition llmDownService :: "int RAGServiceImpl" where
  "llmDownService =
     testService (testLLM (Inl ErrLLMUnavailable) (Inl ErrLLMUnavailable))
       (testRepo golangOnly None)"

text \<open>One query against a service, from the background context and the initial state.\<close>

definition ask ::
  "int RAGServiceImpl \<Rightarrow> ((error + RAGResponse) outcome \<times> RAGRequest option) \<times> int state" where
  "ask s = ProcessQuery s Background (Some (testRequest ''What is Go?'' 5)) st0"

definition finalResponse :: "Document slice \<Rightarrow> int \<Rightarrow> bool \<Rightarrow> RAGResponse" where
  "finalResponse srcs ms performed =
     \<lparr>resp_Answer = ''final'', resp_Sources = srcs, resp_Query = ''What is Go?'',
      resp_ProcessingTime = ms, resp_SearchPerformed = performed,
      resp_Model = ''gpt-4-turbo-preview'', resp_TokensUsed = 70\<rparr>"

definition toolMessage :: "string \<Rightarrow> string \<Rightarrow> ConversationMessage" where
  "toolMessage content ident =
     \<lparr>msg_Role = ''tool'', msg_Content = content, msg_ToolCall = ''search_metadata'',
      msg_ToolID = ident, msg_Timestamp = 0\<rparr>"

definition round1Call :: "error + LLMResponse \<Rightarrow> call" where
  "round1Call r =
     GenerateResponseCall Background [userMessage ''What is Go?''] [CreateSearchTool] r"

definition round2Call :: "ConversationMessage list \<Rightarrow> error + LLMResponse \<Rightarrow> call" where
  "round2Call toolMessages r =
     GenerateResponseCall Background
       ([userMessage ''What is Go?'', assistantMessage []] @ toolMessages) [] r"

section \<open>Properties of the model\<close>

lemmas service_defs =
  ProcessQuery_def ProcessQuery_toolCall_def ProcessQuery_respond_def SearchDocuments_def
  AddDocument_def HealthCheck_def validateDocument_def NewValidationError_def
  ParseToolArguments_def validateRequest_def GenerateResponse_def Search_def Insert_def
  RepoHealthCheck_def LLMHealthCheck_def Now_def WithTimeout_def logger_def
  CreateSearchTool_def Let_def Unix_def Add_def Sub_def Milliseconds_def maxDuration_def
  minDuration_def Second_def toolQuery_def recorded_def len_def

lemmas test_defs =
  testService_def testLLM_def testRepo_def testLib_def testConfig_def testUnmarshal_def
  testMarshal_def st0_def testRequest_def testDocument_def goDocument_def golangOnly_def
  toolCallsResponse_def textResponse_def searchCall_def golangCall_def rustCall_def
  brokenCall_def weatherCall_def userMessage_def assistantMessage_def directService_def
  toolService_def repoDownService_def round2DownService_def llmDownService_def ask_def
  finalResponse_def

subsection \<open>The trace and the loop over the tool calls\<close>

lemma calls_log [simp]: "calls (logger l m st) = calls st"
  by (simp add: logger_def)

lemma world_log [simp]: "world (logger l m st) = world st"
  by (simp add: logger_def)

lemma Now_calls: "Now s st = (t, st') \<Longrightarrow> calls st' = calls st"
  by (auto simp: Now_def split: prod.splits)

lemma GenerateResponse_calls:
  "GenerateResponse s ctx m ts st = (r, st')
     \<Longrightarrow> calls st' = calls st @ [GenerateResponseCall ctx m ts r]"
  by (auto simp: GenerateResponse_def split: prod.splits)

lemma SearchDocuments_calls:
  assumes "SearchDocuments s ctx q l st = (r, st')"
  shows "(q = [] \<and> r = Inl ErrQueryEmpty \<and> calls st' = calls st)
       \<or> (q \<noteq> [] \<and> (\<exists>t res.
             calls st' = calls st @
               [SearchCall (WithDeadline ctx (Add t (SearchTimeout (config s)))) q
                  (if l \<le> 0 then MaxSearchResults (config s) else l) res]
             \<and> r = map_sum (Errorf ''erro na busca de documentos'') id res))"
proof (cases "q = []")
  case True
  with assms show ?thesis by (simp add: SearchDocuments_def)
next
  case False
  obtain t w where t: "time_Now (runtime s) (world st) = (t, w)"
    by (cases "time_Now (runtime s) (world st)")
  let ?c = "WithDeadline ctx (Add t (SearchTimeout (config s)))"
  let ?l = "if l \<le> 0 then MaxSearchResults (config s) else l"
  obtain res w' where res: "repo_Search (docRepo s) ?c q ?l w = (res, w')"
    by (cases "repo_Search (docRepo s) ?c q ?l w")
  have "calls st' = calls st @ [SearchCall ?c q ?l res]"
    using assms False t res
    by (cases res) (auto simp: SearchDocuments_def Let_def WithTimeout_def Search_def Now_def)
  moreover have "r = map_sum (Errorf ''erro na busca de documentos'') id res"
    using assms False t res
    by (cases res) (auto simp: SearchDocuments_def Let_def WithTimeout_def Search_def Now_def)
  ultimately show ?thesis using False by blast
qed

lemma toolCall_skipped:
  assumes "toolQuery (runtime s) tc = None"
  shows "\<exists>st'. ProcessQuery_toolCall s ctx req tc v st =
           (v\<lparr>searchPerformed := searchPerformed v \<or> tc_Name tc = ''search_metadata''\<rparr>, st')
         \<and> calls st' = calls st \<and> world st' = world st"
  using assms
  by (auto simp: ProcessQuery_toolCall_def toolQuery_def Let_def
           split: sum.splits option.splits any.splits if_splits)

lemma toolCall_dispatched:
  assumes "toolQuery (runtime s) tc = Some q"
      and "SearchDocuments s ctx q (req_MaxResults req) (logger Info ''executando busca'' st) = (r, st1)"
  shows "\<exists>v' st'. ProcessQuery_toolCall s ctx req tc v st = (v', st')
         \<and> searchPerformed v' \<and> sources v' = recorded r \<and> calls st' = calls st1
         \<and> (\<exists>m. messages v' = messages v @ [m] \<and> msg_Role m = ''tool''
                 \<and> msg_ToolCall m = tc_Name tc \<and> msg_ToolID m = tc_ID tc)"
  using assms
  by (auto simp: ProcessQuery_toolCall_def toolQuery_def Let_def recorded_def Now_def
           split: sum.splits option.splits any.splits if_splits prod.splits)

lemma toolCall_calls:
  assumes "ProcessQuery_toolCall s ctx req tc v st = (v', st')"
  shows "\<exists>sevs. calls st' = calls st @ sevs \<and> searchTrace ctx (sources v) (sources v') sevs"
proof (cases "toolQuery (runtime s) tc")
  case None
  from toolCall_skipped [OF None, of ctx req v st] assms
  have "calls st' = calls st @ []" and "sources v' = sources v" by auto
  then show ?thesis unfolding searchTrace_def by fastforce
next
  case (Some q)
  obtain r st1 where sd:
    "SearchDocuments s ctx q (req_MaxResults req) (logger Info ''executando busca'' st) = (r, st1)"
    by (cases "SearchDocuments s ctx q (req_MaxResults req) (logger Info ''executando busca'' st)")
  from toolCall_dispatched [OF Some sd, of v] assms
  have c: "calls st' = calls st1" and src: "sources v' = recorded r" by auto
  from SearchDocuments_calls [OF sd]
  show ?thesis
  proof (elim disjE conjE exE)
    assume "r = Inl ErrQueryEmpty" "calls st1 = calls (logger Info ''executando busca'' st)"
    with c src have "calls st' = calls st @ []" "sources v' = Some []"
      by (simp_all add: recorded_def)
    then show ?thesis unfolding searchTrace_def by fastforce
  next
    fix t res
    let ?e = "SearchCall (WithDeadline ctx (Add t (SearchTimeout (config s)))) q
                (if req_MaxResults req \<le> 0 then MaxSearchResults (config s)
                 else req_MaxResults req) res"
    assume a: "calls st1 = calls (logger Info ''executando busca'' st) @ [?e]"
       and r: "r = map_sum (Errorf ''erro na busca de documentos'') id res"
    from a c have 1: "calls st' = calls st @ [?e]" by simp
    have 2: "searchTrace ctx (sources v) (sources v') [?e]"
      using src r unfolding searchTrace_def by (cases res) (auto simp: recorded_def)
    from 1 2 show ?thesis by blast
  qed
qed

lemma searchTrace_append:
  assumes "searchTrace ctx a b xs" and "searchTrace ctx b c ys"
  shows "searchTrace ctx a c (xs @ ys)"
  using assms unfolding searchTrace_def by (auto; blast)

lemma toolCalls_calls:
  "ProcessQuery_toolCalls s ctx req tcs v st = (v', st')
     \<Longrightarrow> \<exists>sevs. calls st' = calls st @ sevs \<and> searchTrace ctx (sources v) (sources v') sevs"
proof (induction tcs arbitrary: v st)
  case Nil
  then have "calls st' = calls st @ []" "sources v' = sources v" by auto
  then show ?case unfolding searchTrace_def by fastforce
next
  case (Cons tc tcs)
  obtain v1 st1 where b: "ProcessQuery_toolCall s ctx req tc v st = (v1, st1)"
    by (cases "ProcessQuery_toolCall s ctx req tc v st")
  with Cons.prems have r: "ProcessQuery_toolCalls s ctx req tcs v1 st1 = (v', st')" by simp
  from toolCall_calls [OF b] obtain xs where
    xs: "calls st1 = calls st @ xs" "searchTrace ctx (sources v) (sources v1) xs" by blast
  from Cons.IH [OF r] obtain ys where
    ys: "calls st' = calls st1 @ ys" "searchTrace ctx (sources v1) (sources v') ys" by blast
  from xs ys have "calls st' = calls st @ (xs @ ys)" by simp
  with searchTrace_append [OF xs(2) ys(2)] show ?case by blast
qed

lemma toolCalls_searchPerformed:
  "searchPerformed (fst (ProcessQuery_toolCalls s ctx req tcs v st)) \<longleftrightarrow>
     searchPerformed v \<or> (\<exists>tc\<in>set tcs. tc_Name tc = ''search_metadata'')"
proof (induction tcs arbitrary: v st)
  case Nil
  show ?case by simp
next
  case (Cons tc tcs)
  obtain v1 st1 where b: "ProcessQuery_toolCall s ctx req tc v st = (v1, st1)"
    by (cases "ProcessQuery_toolCall s ctx req tc v st")
  have "searchPerformed v1 \<longleftrightarrow> searchPerformed v \<or> tc_Name tc = ''search_metadata''"
  proof (cases "toolQuery (runtime s) tc")
    case None
    from toolCall_skipped [OF None, of ctx req v st] b show ?thesis by auto
  next
    case (Some q)
    obtain r st2 where sd:
      "SearchDocuments s ctx q (req_MaxResults req) (logger Info ''executando busca'' st) = (r, st2)"
      by (cases "SearchDocuments s ctx q (req_MaxResults req) (logger Info ''executando busca'' st)")
    from Some have "tc_Name tc = ''search_metadata''"
      by (auto simp: toolQuery_def split: if_splits)
    with toolCall_dispatched [OF Some sd, of v] b show ?thesis by auto
  qed
  with Cons.IH [of v1 st1] b show ?case by auto
qed

lemma toolCalls_append:
  "ProcessQuery_toolCalls s ctx req (xs @ ys) v st =
     (case ProcessQuery_toolCalls s ctx req xs v st of
        (v', st') \<Rightarrow> ProcessQuery_toolCalls s ctx req ys v' st')"
  by (induction xs arbitrary: v st) (auto split: prod.splits)

lemma toolCalls_skipped:
  "\<forall>tc\<in>set tcs. toolQuery (runtime s) tc = None
     \<Longrightarrow> \<exists>st'. ProcessQuery_toolCalls s ctx req tcs v st =
            (v\<lparr>searchPerformed := searchPerformed v
                  \<or> (\<exists>tc\<in>set tcs. tc_Name tc = ''search_metadata'')\<rparr>, st')
          \<and> calls st' = calls st \<and> world st' = world st"
proof (induction tcs arbitrary: v st)
  case Nil
  show ?case by simp
next
  case (Cons tc tcs)
  then have n: "toolQuery (runtime s) tc = None"
    and rest: "\<forall>tc\<in>set tcs. toolQuery (runtime s) tc = None" by auto
  from toolCall_skipped [OF n, of ctx req v st] obtain st1 where
    b: "ProcessQuery_toolCall s ctx req tc v st =
          (v\<lparr>searchPerformed := searchPerformed v \<or> tc_Name tc = ''search_metadata''\<rparr>, st1)"
    and c: "calls st1 = calls st" "world st1 = world st" by blast
  from Cons.IH [OF rest, of "v\<lparr>searchPerformed := searchPerformed v \<or> tc_Name tc = ''search_metadata''\<rparr>" st1]
  show ?case using b c by auto
qed

lemma searchTrace_no_generate:
  "searchTrace ctx a b sevs \<Longrightarrow> GenerateResponseCall c m ts r \<notin> set sevs"
  unfolding searchTrace_def by auto

lemma searchTrace_None:
  assumes "searchTrace ctx None after sevs"
      and "\<forall>c q l res. SearchCall c q l res \<in> set sevs \<longrightarrow> (\<exists>e. res = Inl e)"
  shows "len after = 0"
  using assms unfolding searchTrace_def len_def by (auto split: option.splits)

lemma recorded_map_sum [simp]: "recorded (map_sum f id res) = recorded res"
  by (cases res) (simp_all add: recorded_def)

subsection \<open>The paths through ProcessQuery\<close>

lemma validateRequest_None:
  assumes "validateRequest s req = (None, req')"
  shows "\<exists>r0. req = Some r0 \<and> 3 \<le> length (req_Query r0) \<and> length (req_Query r0) \<le> 1000
           \<and> req' = Some (if req_MaxResults r0 \<le> 0
                           then r0\<lparr>req_MaxResults := MaxSearchResults (config s)\<rparr> else r0)"
  using assms
  by (cases req) (auto simp: validateRequest_def split: if_splits)

lemma respond_fields:
  assumes "ProcessQuery_respond s r start llmResp srcs performed st = (resp, st')"
  shows "resp_Answer resp = llm_Content llmResp \<and> resp_Sources resp = srcs
       \<and> resp_SearchPerformed resp = performed \<and> resp_Query resp = req_Query r
       \<and> resp_Model resp = llm_Model llmResp \<and> resp_TokensUsed resp = llm_TokensUsed llmResp
       \<and> calls st' = calls st"
  using assms
  by (auto simp: ProcessQuery_respond_def Now_def split: prod.splits)

lemma ProcessQuery_cases [case_names invalid round1_failed answered searched]:
  assumes "ProcessQuery s ctx req st = ((out, req'), st')"
  obtains
    (invalid) err where
      "validateRequest s req = (Some err, req')" "out = Returns (Inl err)"
      "calls st' = calls st"
  | (round1_failed) r m e where
      "validateRequest s req = (None, Some r)" "req' = Some r"
      "out = Returns (Inl (Errorf ''erro ao gerar resposta'' e))"
      "calls st' = calls st @ [GenerateResponseCall ctx [m] [CreateSearchTool] (Inl e)]"
  | (answered) r m llmResp resp where
      "validateRequest s req = (None, Some r)" "req' = Some r"
      "llm_ToolCalls llmResp = []" "out = Returns (Inr resp)"
      "resp_Answer resp = llm_Content llmResp" "resp_Sources resp = None"
      "\<not> resp_SearchPerformed resp" "resp_Query resp = req_Query r"
      "resp_Model resp = llm_Model llmResp" "resp_TokensUsed resp = llm_TokensUsed llmResp"
      "calls st' = calls st @ [GenerateResponseCall ctx [m] [CreateSearchTool] (Inr llmResp)]"
  | (searched) r m llmResp v0 st3 v st4 res2 where
      "validateRequest s req = (None, Some r)" "req' = Some r"
      "llm_ToolCalls llmResp \<noteq> []"
      "calls st3 = calls st @ [GenerateResponseCall ctx [m] [CreateSearchTool] (Inr llmResp)]"
      "sources v0 = None" "\<not> searchPerformed v0"
      "ProcessQuery_toolCalls s ctx r (llm_ToolCalls llmResp) v0 st3 = (v, st4)"
      "calls st' = calls st4 @ [GenerateResponseCall ctx (messages v) [] res2]"
      "case res2 of
         Inl e \<Rightarrow> out = Returns (Inl (Errorf ''erro ao gerar resposta final'' e))
       | Inr finalResp \<Rightarrow>
           \<exists>resp. out = Returns (Inr resp) \<and> resp_Answer resp = llm_Content finalResp
             \<and> resp_Sources resp = sources v \<and> resp_SearchPerformed resp = searchPerformed v
             \<and> resp_Query resp = req_Query r \<and> resp_Model resp = llm_Model finalResp
             \<and> resp_TokensUsed resp = llm_TokensUsed finalResp"
proof -
  obtain start st0 where n0: "Now s st = (start, st0)" by (cases "Now s st")
  note c0 = Now_calls [OF n0]
  obtain verr vreq where vr: "validateRequest s req = (verr, vreq)"
    by (cases "validateRequest s req")
  show thesis
  proof (cases verr)
    case (Some err)
    with assms n0 vr have "out = Returns (Inl err)" "req' = vreq" "st' = st0"
      by (simp_all add: ProcessQuery_def)
    with vr Some c0 show thesis by (intro invalid [of err]) simp_all
  next
    case None
    with validateRequest_None vr obtain r where r: "vreq = Some r" by blast
    with vr None have v: "validateRequest s req = (None, Some r)" by simp
    obtain t1 st1 where n1: "Now s (logger Info ''processando query RAG'' st0) = (t1, st1)"
      by (cases "Now s (logger Info ''processando query RAG'' st0)")
    from Now_calls [OF n1] c0 have c1: "calls st1 = calls st" by simp
    let ?m = "\<lparr>msg_Role = ''user'', msg_Content = req_Query r, msg_ToolCall = [],
               msg_ToolID = [], msg_Timestamp = Unix t1\<rparr>"
    obtain r1 st2 where g1: "GenerateResponse s ctx [?m] [CreateSearchTool] st1 = (r1, st2)"
      by (cases "GenerateResponse s ctx [?m] [CreateSearchTool] st1")
    from GenerateResponse_calls [OF g1] c1
    have c2: "calls st2 = calls st @ [GenerateResponseCall ctx [?m] [CreateSearchTool] r1]"
      by simp
    show thesis
    proof (cases r1)
      case (Inl e)
      with assms n0 v n1 g1
      have "out = Returns (Inl (Errorf ''erro ao gerar resposta'' e))" "req' = Some r"
           "st' = logger Error ''erro na primeira chamada ao LLM'' st2"
        by (simp_all add: ProcessQuery_def Let_def)
      with v c2 Inl show thesis by (intro round1_failed [of r e ?m]) simp_all
    next
      case (Inr llmResp)
      show thesis
      proof (cases "llm_ToolCalls llmResp = []")
        case True
        obtain resp st3 where rs: "ProcessQuery_respond s r start llmResp None False st2 = (resp, st3)"
          by (cases "ProcessQuery_respond s r start llmResp None False st2")
        with assms n0 v n1 g1 Inr True
        have "out = Returns (Inr resp)" "req' = Some r" "st' = st3"
          by (simp_all add: ProcessQuery_def Let_def)
        with v c2 Inr True respond_fields [OF rs] show thesis
          by (intro answered [of r llmResp resp ?m]) simp_all
      next
        case False
        obtain t2 st3 where n2: "Now s st2 = (t2, st3)" by (cases "Now s st2")
        let ?v0 = "\<lparr>messages = [?m] @
                     [\<lparr>msg_Role = ''assistant'', msg_Content = llm_Content llmResp,
                       msg_ToolCall = [], msg_ToolID = [], msg_Timestamp = Unix t2\<rparr>],
                    sources = None, searchPerformed = False\<rparr>"
        obtain v st4 where lp:
          "ProcessQuery_toolCalls s ctx r (llm_ToolCalls llmResp) ?v0 st3 = (v, st4)"
          by (cases "ProcessQuery_toolCalls s ctx r (llm_ToolCalls llmResp) ?v0 st3")
        obtain res2 st5 where g2: "GenerateResponse s ctx (messages v) [] st4 = (res2, st5)"
          by (cases "GenerateResponse s ctx (messages v) [] st4")
        from Now_calls [OF n2] c2 Inr
        have c3: "calls st3 = calls st @ [GenerateResponseCall ctx [?m] [CreateSearchTool] (Inr llmResp)]"
          by simp
        note c5 = GenerateResponse_calls [OF g2]
        have final: "req' = Some r \<and> calls st' = calls st5 \<and>
          (case res2 of
             Inl e \<Rightarrow> out = Returns (Inl (Errorf ''erro ao gerar resposta final'' e))
           | Inr finalResp \<Rightarrow>
               \<exists>resp. out = Returns (Inr resp) \<and> resp_Answer resp = llm_Content finalResp
                 \<and> resp_Sources resp = sources v \<and> resp_SearchPerformed resp = searchPerformed v
                 \<and> resp_Query resp = req_Query r \<and> resp_Model resp = llm_Model finalResp
                 \<and> resp_TokensUsed resp = llm_TokensUsed finalResp)"
        proof (cases res2)
          case (Inl e)
          with assms n0 v n1 g1 \<open>r1 = Inr llmResp\<close> False n2 lp g2 show ?thesis
            by (auto simp: ProcessQuery_def Let_def)
        next
          case (Inr finalResp)
          obtain resp st6 where rs:
            "ProcessQuery_respond s r start finalResp (sources v) (searchPerformed v) st5 = (resp, st6)"
            by (cases "ProcessQuery_respond s r start finalResp (sources v) (searchPerformed v) st5")
          with assms n0 v n1 g1 \<open>r1 = Inr llmResp\<close> False n2 lp g2 Inr
          have "out = Returns (Inr resp)" "req' = Some r" "st' = st6"
            by (simp_all add: ProcessQuery_def Let_def)
          with respond_fields [OF rs] Inr show ?thesis by auto
        qed
        with c5 have c': "calls st' = calls st4 @ [GenerateResponseCall ctx (messages v) [] res2]"
          by simp
        from v final False c3 lp c' show thesis
          by (intro searched [of r llmResp st3 ?m ?v0 v st4 res2]) simp_all
      qed
    qed
  qed
qed

lemma ProcessQuery_contexts:
  assumes run: "ProcessQuery s ctx req st = ((out, req'), st')"
      and trace: "calls st' = calls st @ evs"
  shows "(\<forall>c m ts r. GenerateResponseCall c m ts r \<in> set evs \<longrightarrow> c = ctx)
       \<and> (\<forall>c q l r. SearchCall c q l r \<in> set evs \<longrightarrow> (\<exists>t. c = WithDeadline ctx t))"
  using run
proof (cases rule: ProcessQuery_cases)
  case (searched r m' llmResp v0 st3 v st4 res2)
  from toolCalls_calls [OF searched(7)] obtain sevs where
    sevs: "calls st4 = calls st3 @ sevs" "searchTrace ctx (sources v0) (sources v) sevs" by blast
  from sevs searched(4,8) trace
  have "evs = GenerateResponseCall ctx [m'] [CreateSearchTool] (Inr llmResp) # sevs
                @ [GenerateResponseCall ctx (messages v) [] res2]" by simp
  with sevs(2) show ?thesis unfolding searchTrace_def by fastforce
qed (use trace in auto)

lemma ProcessQuery_never_panics:
  "fst (fst (ProcessQuery s ctx req st)) \<noteq> Panics"
proof -
  obtain out req' st' where run: "ProcessQuery s ctx req st = ((out, req'), st')"
    by (metis prod.collapse)
  then have "out \<noteq> Panics"
  proof (cases rule: ProcessQuery_cases)
    case (searched r m llmResp v0 st3 v st4 res2)
    then show ?thesis by (cases res2) auto
  qed auto
  with run show ?thesis by simp
qed

subsection \<open>HealthCheck\<close>

lemma HealthCheck_repo_failed:
  assumes "repo_HealthCheck (docRepo s) ctx (world st) = (Some e, w)"
  shows "HealthCheck s ctx st =
           (Some (Errorf (''reposit'' @ o_acute @ ''rio indispon'' @ i_acute @ ''vel'') e),
            st\<lparr>world := w, calls := calls st @ [RepoHealthCheckCall ctx (Some e)]\<rparr>)"
  using assms by (simp add: HealthCheck_def RepoHealthCheck_def)

lemma HealthCheck_repo_ok:
  assumes "repo_HealthCheck (docRepo s) ctx (world st) = (None, w)"
      and "client_HealthCheck (llmClient s) ctx w = (r, w')"
  shows "HealthCheck s ctx st =
           (map_option (Errorf (''cliente LLM indispon'' @ i_acute @ ''vel'')) r,
            st\<lparr>world := w',
               calls := calls st @ [RepoHealthCheckCall ctx None, LLMHealthCheckCall ctx r]\<rparr>)"
  using assms by (cases r) (simp_all add: HealthCheck_def RepoHealthCheck_def LLMHealthCheck_def)

lemma HealthCheck_healthy:
  assumes "\<forall>c w. fst (repo_HealthCheck (docRepo s) c w) = None
                \<and> fst (client_HealthCheck (llmClient s) c w) = None"
  shows "fst (HealthCheck s ctx st) = None"
proof -
  obtain r w where a: "repo_HealthCheck (docRepo s) ctx (world st) = (r, w)"
    by (cases "repo_HealthCheck (docRepo s) ctx (world st)")
  obtain r' w' where b: "client_HealthCheck (llmClient s) ctx w = (r', w')"
    by (cases "client_HealthCheck (llmClient s) ctx w")
  from assms a have "r = None" by (metis fst_conv)
  moreover from assms b have "r' = None" by (metis fst_conv)
  ultimately show ?thesis using HealthCheck_repo_ok [of s ctx st w r' w'] a b by simp
qed

lemma HealthCheck_repeated_healthy:
  assumes "\<forall>c w. fst (repo_HealthCheck (docRepo s) c w) = None
                \<and> fst (client_HealthCheck (llmClient s) c w) = None"
  shows "fst (HealthCheck_repeated s ctx n st) = replicate n None"
proof (induction n arbitrary: st)
  case 0
  show ?case by simp
next
  case (Suc n)
  obtain r st1 where h: "HealthCheck s ctx st = (r, st1)" by (cases "HealthCheck s ctx st")
  with HealthCheck_healthy [OF assms, of ctx st] have "r = None" by simp
  with h Suc [of st1] show ?case by (auto split: prod.splits)
qed

subsection \<open>Validation\<close>

lemma validateRequest_Some:
  "validateRequest s (Some req) =
     (if req_Query req = [] then (Some ErrQueryEmpty, Some req)
      else if length (req_Query req) < 3 then (Some ErrQueryTooShort, Some req)
      else if length (req_Query req) > 1000 then (Some ErrQueryTooLong, Some req)
      else if req_MaxResults req \<le> 0
        then (None, Some (req\<lparr>req_MaxResults := MaxSearchResults (config s)\<rparr>))
      else (None, Some req))"
  by (simp add: validateRequest_def)

lemma ProcessQuery_request:
  "snd (fst (ProcessQuery s ctx req st)) = snd (validateRequest s req)"
  by (cases req)
     (auto simp: ProcessQuery_def validateRequest_def Let_def
           split: prod.splits option.splits sum.splits if_splits)

section \<open>The claims\<close>

text \<open>
  An execution of \<open>ProcessQuery\<close> is read from its result and from the calls that it
  added to the trace: the first call is round 1 of the LLM with its response, the last
  one, when tools were called, is round 2.
\<close>

subsection \<open>C1: the flag and the tool calls of round 1\<close>

text \<open>
  Claim C1, amended. When round 1 answers without any tool call, \<open>ProcessQuery\<close> returns
  a response with \<open>search_performed = false\<close>, the \<open>nil\<close> source list and the content of
  round 1 as its answer. Whenever \<open>ProcessQuery\<close> returns a response,
  \<open>search_performed\<close> is true exactly when round 1 holds a tool call named
  \<open>search_metadata\<close>: a tool call of any other name does not set the flag.
\<close>

theorem search_performed_iff_search_tool_called:
  assumes run: "ProcessQuery s ctx req st = ((out, req'), st')"
      and trace: "calls st' = calls st @ GenerateResponseCall c m ts (Inr llmResp) # rest"
  shows "(llm_ToolCalls llmResp = [] \<longrightarrow>
            (\<exists>resp. out = Returns (Inr resp) \<and> \<not> resp_SearchPerformed resp
               \<and> resp_Sources resp = None \<and> len (resp_Sources resp) = 0
               \<and> resp_Answer resp = llm_Content llmResp))
       \<and> (\<forall>resp. out = Returns (Inr resp) \<longrightarrow>
             (resp_SearchPerformed resp \<longleftrightarrow>
                (\<exists>tc\<in>set (llm_ToolCalls llmResp). tc_Name tc = ''search_metadata'')))"
  using run
proof (cases rule: ProcessQuery_cases)
  case (invalid err)
  with trace show ?thesis by simp
next
  case (round1_failed r m e)
  with trace show ?thesis by simp
next
  case (answered r m' llmResp' resp)
  with trace have "llmResp' = llmResp" by simp
  with answered show ?thesis by (simp add: len_def)
next
  case (searched r m' llmResp' v0 st3 v st4 res2)
  from toolCalls_calls [OF searched(7)] obtain sevs where
    sevs: "calls st4 = calls st3 @ sevs" by blast
  with searched(4,8) trace have eq: "llmResp' = llmResp" by simp
  from toolCalls_searchPerformed [of s ctx r "llm_ToolCalls llmResp'" v0 st3] searched(6,7)
  have sp: "searchPerformed v \<longleftrightarrow> (\<exists>tc\<in>set (llm_ToolCalls llmResp'). tc_Name tc = ''search_metadata'')"
    by simp
  from searched(3) eq have "llm_ToolCalls llmResp \<noteq> []" by simp
  moreover have "\<forall>resp. out = Returns (Inr resp) \<longrightarrow>
             (resp_SearchPerformed resp \<longleftrightarrow>
                (\<exists>tc\<in>set (llm_ToolCalls llmResp). tc_Name tc = ''search_metadata''))"
    using searched(9) sp eq by (cases res2) auto
  ultimately show ?thesis by simp
qed

theorem search_performed_iff_search_tool_called_witness:
  "calls (snd (ask directService)) =
     calls st0 @ round1Call (Inr (textResponse ''Go is a language.'')) # []
   \<and> llm_ToolCalls (textResponse ''Go is a language.'') = []
   \<and> (\<exists>resp. fst (fst (ask directService)) = Returns (Inr resp)
          \<and> \<not> resp_SearchPerformed resp \<and> resp_Sources resp = None
          \<and> resp_Answer resp = ''Go is a language.'')"
proof -
  have run: "ProcessQuery directService Background (Some (testRequest ''What is Go?'' 5)) st0 =
               ((fst (fst (ask directService)), snd (fst (ask directService))),
                snd (ask directService))"
    by (simp add: ask_def)
  have trace: "calls (snd (ask directService)) =
                 calls st0 @ GenerateResponseCall Background [userMessage ''What is Go?'']
                   [CreateSearchTool] (Inr (textResponse ''Go is a language.'')) # []"
    by (simp add: service_defs test_defs)
  have none: "llm_ToolCalls (textResponse ''Go is a language.'') = []"
    by (simp add: textResponse_def)
  from search_performed_iff_search_tool_called [OF run trace] none trace show ?thesis
    by (auto simp: textResponse_def round1Call_def)
qed

text \<open>
  The claim as stated fails when round 1 calls a tool of another name: the response has
  one tool call, the query succeeds, and \<open>search_performed\<close> is false.
\<close>

theorem other_tool_call_leaves_flag_unset:
  "calls (snd (ask (toolService [weatherCall]))) =
     [round1Call (Inr (toolCallsResponse [weatherCall])),
      round2Call [] (Inr (textResponse ''final''))]
   \<and> length (llm_ToolCalls (toolCallsResponse [weatherCall])) = 1
   \<and> fst (fst (ask (toolService [weatherCall]))) = Returns (Inr (finalResponse None 3 False))
   \<and> \<not> resp_SearchPerformed (finalResponse None 3 False)"
  by (simp add: service_defs test_defs round1Call_def round2Call_def)

subsection \<open>C2: the contexts of the calls\<close>

text \<open>
  Claim C2, evaluated. The service is configured with an LLM timeout of 30 s and a search
  timeout of 10 s, and the query runs under the background context. The search receives a
  context derived from the parent with the search deadline; both rounds of the LLM
  receive the parent context itself, which has no deadline: \<open>LLMTimeout\<close> is never read.
\<close>

theorem llm_rounds_receive_parent_context:
  "LLMTimeout (config (toolService [golangCall])) = 30 * Second
   \<and> SearchTimeout (config (toolService [golangCall])) = 10 * Second
   \<and> calls (snd (ask (toolService [golangCall]))) =
       [round1Call (Inr (toolCallsResponse [golangCall])),
        SearchCall (WithDeadline Background 10003000000) ''golang'' 5 (Inr (Some [goDocument])),
        round2Call [toolMessage (''[{'' @ [CHR 0x22] @ ''title'' @ [CHR 0x22] @ '':'' @ [CHR 0x22]
                                   @ ''Go performance'' @ [CHR 0x22] @ ''}]'') ''call_1'']
          (Inr (textResponse ''final''))]
   \<and> map callContext (calls (snd (ask (toolService [golangCall])))) =
       [Background, WithDeadline Background 10003000000, Background]
   \<and> Deadline Background = None
   \<and> Deadline (WithDeadline Background 10003000000) = Some 10003000000"
  by (simp add: service_defs test_defs round1Call_def round2Call_def toolMessage_def)

subsection \<open>C3: the sources when several searches are called\<close>

text \<open>
  Claim C3, amended. Let round 1 hold a tool call that reaches the search with query
  \<open>q\<close> (its name is \<open>search_metadata\<close> and its arguments decode to a string field
  \<open>query\<close>), followed only by tool calls that do not reach it. Then the sources of the
  returned response are what the loop recorded for that one call, with nothing kept from
  the calls before it: the documents of its search of the store, which is the last search
  in the trace, or the empty list when that search failed; and the empty list when \<open>q\<close> is
  empty, where the store is not called.
\<close>

theorem sources_of_last_search_reached:
  assumes run: "ProcessQuery s ctx req st = ((Returns (Inr resp), req'), st')"
      and trace: "calls st' = calls st @ GenerateResponseCall c m ts (Inr llmResp) # rest"
      and split: "llm_ToolCalls llmResp = pre @ tc # post"
      and dispatched: "toolQuery (runtime s) tc = Some q"
      and skipped: "\<forall>x\<in>set post. toolQuery (runtime s) x = None"
  shows "(q = [] \<longrightarrow> resp_Sources resp = Some [])
       \<and> (q \<noteq> [] \<longrightarrow>
            (\<exists>evs c' l res m2 r2.
               rest = evs @ [SearchCall c' q l res, GenerateResponseCall ctx m2 [] r2]
               \<and> resp_Sources resp = recorded res))"
  using run
proof (cases rule: ProcessQuery_cases)
  case (invalid err)
  with trace show ?thesis by simp
next
  case (round1_failed r m e)
  with trace show ?thesis by simp
next
  case (answered r m' llmResp' resp')
  with trace have "llmResp' = llmResp" by simp
  with answered split show ?thesis by simp
next
  case (searched r0 m' llmResp' v0 st3 v st4 res2)
  let ?g2 = "GenerateResponseCall ctx (messages v) [] res2"
  from toolCalls_calls [OF searched(7)] obtain sevs where
    sevs: "calls st4 = calls st3 @ sevs" by blast
  with searched(4,8) trace have eq: "llmResp' = llmResp" and rest: "rest = sevs @ [?g2]"
    by simp_all
  obtain v1 s1 where p: "ProcessQuery_toolCalls s ctx r0 pre v0 st3 = (v1, s1)"
    by (cases "ProcessQuery_toolCalls s ctx r0 pre v0 st3")
  obtain v2 s2 where b: "ProcessQuery_toolCall s ctx r0 tc v1 s1 = (v2, s2)"
    by (cases "ProcessQuery_toolCall s ctx r0 tc v1 s1")
  from searched(7) eq split p b
  have tail: "ProcessQuery_toolCalls s ctx r0 post v2 s2 = (v, st4)"
    by (simp add: toolCalls_append)
  from toolCalls_skipped [OF skipped, of ctx r0 v2 s2] tail
  have after: "sources v = sources v2" "calls st4 = calls s2" by auto
  obtain r sd1 where sd:
    "SearchDocuments s ctx q (req_MaxResults r0) (logger Info ''executando busca'' s1) = (r, sd1)"
    by (cases "SearchDocuments s ctx q (req_MaxResults r0) (logger Info ''executando busca'' s1)")
  from toolCall_dispatched [OF dispatched sd, of v1] b
  have body: "sources v2 = recorded r" "calls s2 = calls sd1" by auto
  from toolCalls_calls [OF p] obtain xs where xs: "calls s1 = calls st3 @ xs" by blast
  have src: "resp_Sources resp = sources v"
    using searched(9) by (cases res2) auto
  from SearchDocuments_calls [OF sd] show ?thesis
  proof (elim disjE conjE exE)
    assume "q = []" "r = Inl ErrQueryEmpty"
    with src after body show ?thesis by (simp add: recorded_def)
  next
    fix t res
    let ?e = "SearchCall (WithDeadline ctx (Add t (SearchTimeout (config s)))) q
                (if req_MaxResults r0 \<le> 0 then MaxSearchResults (config s)
                 else req_MaxResults r0) res"
    assume q: "q \<noteq> []"
       and cs: "calls sd1 = calls (logger Info ''executando busca'' s1) @ [?e]"
       and r: "r = map_sum (Errorf ''erro na busca de documentos'') id res"
    from cs xs after body sevs have "sevs = xs @ [?e]" by simp
    with rest have "rest = xs @ [?e, ?g2]" by simp
    moreover from src after body r have "resp_Sources resp = recorded res" by simp
    ultimately show ?thesis using q by blast
  qed
qed

theorem sources_of_last_search_reached_witness:
  "ProcessQuery (toolService [golangCall, brokenCall]) Background
       (Some (testRequest ''What is Go?'' 5)) st0 =
     ((Returns (Inr (finalResponse (Some [goDocument]) 5 True)),
       snd (fst (ask (toolService [golangCall, brokenCall])))),
      snd (ask (toolService [golangCall, brokenCall])))
   \<and> toolQuery (runtime (toolService [golangCall, brokenCall])) golangCall = Some ''golang''
   \<and> toolQuery (runtime (toolService [golangCall, brokenCall])) brokenCall = None
   \<and> resp_Sources (finalResponse (Some [goDocument]) 5 True) =
       recorded (Inr (Some [goDocument]))"
proof -
  let ?S = "toolService [golangCall, brokenCall]"
  let ?G1 = "GenerateResponseCall Background [userMessage ''What is Go?''] [CreateSearchTool]
               (Inr (toolCallsResponse [golangCall, brokenCall]))"
  have out: "fst (fst (ask ?S)) = Returns (Inr (finalResponse (Some [goDocument]) 5 True))"
    by (simp add: service_defs test_defs)
  have run: "ProcessQuery ?S Background (Some (testRequest ''What is Go?'' 5)) st0 =
               ((Returns (Inr (finalResponse (Some [goDocument]) 5 True)), snd (fst (ask ?S))),
                snd (ask ?S))"
    using out by (simp add: ask_def prod_eq_iff)
  let ?search = "SearchCall (WithDeadline Background 10003000000) ''golang'' 5
                   (Inr (Some [goDocument]))"
  let ?G2 = "last (calls (snd (ask ?S)))"
  have trace: "calls (snd (ask ?S)) = calls st0 @ ?G1 # [] @ [?search, ?G2]"
    by (simp add: service_defs test_defs)
  have split: "llm_ToolCalls (toolCallsResponse [golangCall, brokenCall]) =
                 [] @ golangCall # [brokenCall]"
    by (simp add: toolCallsResponse_def)
  have reached: "toolQuery (runtime ?S) golangCall = Some ''golang''"
    by (simp add: service_defs test_defs)
  have skipped: "\<forall>x\<in>set [brokenCall]. toolQuery (runtime ?S) x = None"
    by (simp add: service_defs test_defs)
  from sources_of_last_search_reached [OF run trace split reached skipped]
  obtain evs c' l res m2 r2 where
    eq: "[] @ [?search, ?G2] = evs @ [SearchCall c' ''golang'' l res,
                                       GenerateResponseCall Background m2 [] r2]"
    and src: "resp_Sources (finalResponse (Some [goDocument]) 5 True) = recorded res"
    by auto
  from eq have "res = Inr (Some [goDocument])" by simp
  with src have "resp_Sources (finalResponse (Some [goDocument]) 5 True) =
          recorded (Inr (Some [goDocument]))"
    by simp
  with run reached skipped show ?thesis by simp
qed

text \<open>
  The claim as stated fails when the last search fails: the first search succeeds with one
  document, the second one times out, and the response has no source, not the document of
  the last successful call.
\<close>

theorem failed_last_search_empties_sources:
  "calls (snd (ask (toolService [golangCall, rustCall]))) =
     [round1Call (Inr (toolCallsResponse [golangCall, rustCall])),
      SearchCall (WithDeadline Background 10003000000) ''golang'' 5 (Inr (Some [goDocument])),
      SearchCall (WithDeadline Background 10005000000) ''rust'' 5 (Inl ErrRepositoryTimeout),
      round2Call [toolMessage (''[{'' @ [CHR 0x22] @ ''title'' @ [CHR 0x22] @ '':'' @ [CHR 0x22]
                                 @ ''Go performance'' @ [CHR 0x22] @ ''}]'') ''call_1'',
                  toolMessage ''[]'' ''call_2'']
        (Inr (textResponse ''final''))]
   \<and> fst (fst (ask (toolService [golangCall, rustCall]))) =
       Returns (Inr (finalResponse (Some []) 7 True))
   \<and> resp_Sources (finalResponse (Some []) 7 True) \<noteq> Some [goDocument]"
  by (simp add: service_defs test_defs round1Call_def round2Call_def toolMessage_def)

subsection \<open>C4: a failed search does not abort the query\<close>

text \<open>
  Claim C4. Let round 1 hold a tool call named \<open>search_metadata\<close> and let every search
  of the store fail. When round 2 of the LLM answers, \<open>ProcessQuery\<close> returns a
  response with \<open>search_performed = true\<close> and no source. The only error that such a
  query can return is the one of round 2 of the LLM, wrapped: no error of the search
  reaches the caller.
\<close>

theorem failed_search_does_not_abort:
  assumes run: "ProcessQuery s ctx req st = ((out, req'), st')"
      and trace: "calls st' = calls st @ GenerateResponseCall c m ts (Inr llmResp) # rest"
      and called: "\<exists>tc\<in>set (llm_ToolCalls llmResp). tc_Name tc = ''search_metadata''"
      and failed: "\<forall>c q l res. SearchCall c q l res \<in> set rest \<longrightarrow> (\<exists>e. res = Inl e)"
  shows "(\<forall>c2 m2 ts2 final. rest \<noteq> [] \<and> last rest = GenerateResponseCall c2 m2 ts2 (Inr final) \<longrightarrow>
            (\<exists>resp. out = Returns (Inr resp) \<and> resp_SearchPerformed resp
               \<and> len (resp_Sources resp) = 0))
       \<and> (\<forall>err. out = Returns (Inl err) \<longrightarrow>
            (\<exists>c2 m2 ts2 e2. rest \<noteq> [] \<and> last rest = GenerateResponseCall c2 m2 ts2 (Inl e2)
               \<and> err = Errorf ''erro ao gerar resposta final'' e2))
       \<and> out \<noteq> Panics"
  using run
proof (cases rule: ProcessQuery_cases)
  case (invalid err)
  with trace show ?thesis by simp
next
  case (round1_failed r m e)
  with trace show ?thesis by simp
next
  case (answered r m' llmResp' resp)
  with trace have "llmResp' = llmResp" by simp
  with answered called show ?thesis by simp
next
  case (searched r m' llmResp' v0 st3 v st4 res2)
  from toolCalls_calls [OF searched(7)] obtain sevs where
    sevs: "calls st4 = calls st3 @ sevs" "searchTrace ctx (sources v0) (sources v) sevs" by blast
  let ?g2 = "GenerateResponseCall ctx (messages v) [] res2"
  from sevs searched(4,8) trace have eq: "llmResp' = llmResp" and rest: "rest = sevs @ [?g2]"
    by simp_all
  from failed rest have "\<forall>c q l res. SearchCall c q l res \<in> set sevs \<longrightarrow> (\<exists>e. res = Inl e)"
    by auto
  with searchTrace_None [of ctx "sources v" sevs] sevs(2) searched(5)
  have empty: "len (sources v) = 0" by simp
  from toolCalls_searchPerformed [of s ctx r "llm_ToolCalls llmResp'" v0 st3] searched(7) called eq
  have sp: "searchPerformed v" by simp
  from rest have l: "rest \<noteq> []" "last rest = ?g2" by simp_all
  show ?thesis
  proof (cases res2)
    case (Inl e2)
    with searched(9) l show ?thesis by auto
  next
    case (Inr final)
    with searched(9) l empty sp show ?thesis by auto
  qed
qed

theorem failed_search_does_not_abort_witness:
  "calls (snd (ask repoDownService)) =
     calls st0 @ round1Call (Inr (toolCallsResponse [golangCall])) #
       [SearchCall (WithDeadline Background 10003000000) ''golang'' 5 (Inl ErrRepositoryTimeout),
        round2Call [toolMessage ''[]'' ''call_1''] (Inr (textResponse ''final''))]
   \<and> (\<exists>tc\<in>set (llm_ToolCalls (toolCallsResponse [golangCall])).
         tc_Name tc = ''search_metadata'')
   \<and> (\<exists>resp. fst (fst (ask repoDownService)) = Returns (Inr resp)
          \<and> resp_SearchPerformed resp \<and> len (resp_Sources resp) = 0)"
proof -
  let ?rest = "[SearchCall (WithDeadline Background 10003000000) ''golang'' 5
                  (Inl ErrRepositoryTimeout),
                round2Call [toolMessage ''[]'' ''call_1''] (Inr (textResponse ''final''))]"
  have run: "ProcessQuery repoDownService Background (Some (testRequest ''What is Go?'' 5)) st0 =
               ((fst (fst (ask repoDownService)), snd (fst (ask repoDownService))),
                snd (ask repoDownService))"
    by (simp add: ask_def)
  have trace: "calls (snd (ask repoDownService)) =
                 calls st0 @ GenerateResponseCall Background [userMessage ''What is Go?'']
                   [CreateSearchTool] (Inr (toolCallsResponse [golangCall])) # ?rest"
    by (simp add: service_defs test_defs round2Call_def toolMessage_def)
  have called: "\<exists>tc\<in>set (llm_ToolCalls (toolCallsResponse [golangCall])).
                  tc_Name tc = ''search_metadata''"
    by (simp add: toolCallsResponse_def golangCall_def searchCall_def)
  have failed: "\<forall>c q l res. SearchCall c q l res \<in> set ?rest \<longrightarrow> (\<exists>e. res = Inl e)"
    by (simp add: round2Call_def)
  have answered: "?rest \<noteq> [] \<and> last ?rest =
      GenerateResponseCall Background
        ([userMessage ''What is Go?'', assistantMessage []] @ [toolMessage ''[]'' ''call_1'']) []
        (Inr (textResponse ''final''))"
    by (simp add: round2Call_def)
  from failed_search_does_not_abort [OF run trace called failed] answered
  have "\<exists>resp. fst (fst (ask repoDownService)) = Returns (Inr resp)
          \<and> resp_SearchPerformed resp \<and> len (resp_Sources resp) = 0"
    by blast
  with trace called show ?thesis by (simp add: round1Call_def)
qed

subsection \<open>C5: a short query is rejected before any call\<close>




subsection \<open>C6: a failure of the LLM aborts the query\<close>

text \<open>
  Claim C6. When the only call of the LLM fails (round 1), \<open>ProcessQuery\<close> returns that
  error wrapped with the message of round 1; when the call of the LLM after a first one
  fails (round 2), it returns that error wrapped with the message of round 2. In every
  execution in which a call of the LLM returned an error, the result is that error
  wrapped, and no response.
\<close>

theorem llm_failure_aborts_query:
  assumes run: "ProcessQuery s ctx req st = ((out, req'), st')"
      and trace: "calls st' = calls st @ evs"
  shows "(\<forall>c m ts e. evs = [GenerateResponseCall c m ts (Inl e)] \<longrightarrow>
            out = Returns (Inl (Errorf ''erro ao gerar resposta'' e)))
       \<and> (\<forall>c1 m1 ts1 r1 mid c m ts e.
            evs = GenerateResponseCall c1 m1 ts1 r1 # mid @ [GenerateResponseCall c m ts (Inl e)] \<longrightarrow>
            out = Returns (Inl (Errorf ''erro ao gerar resposta final'' e)))
       \<and> (\<forall>c m ts e. GenerateResponseCall c m ts (Inl e) \<in> set evs \<longrightarrow>
            (\<exists>msg. out = Returns (Inl (Errorf msg e))) \<and> (\<forall>resp. out \<noteq> Returns (Inr resp)))"
  using run
proof (cases rule: ProcessQuery_cases)
  case (invalid err)
  with trace show ?thesis by simp
next
  case (round1_failed r m e)
  with trace show ?thesis by auto
next
  case (answered r m llmResp resp)
  with trace show ?thesis by auto
next
  case (searched r m' llmResp v0 st3 v st4 res2)
  from toolCalls_calls [OF searched(7)] obtain sevs where
    sevs: "calls st4 = calls st3 @ sevs" "searchTrace ctx (sources v0) (sources v) sevs" by blast
  let ?g1 = "GenerateResponseCall ctx [m'] [CreateSearchTool] (Inr llmResp)"
  let ?g2 = "GenerateResponseCall ctx (messages v) [] res2"
  from sevs searched(4,8) trace have evs: "evs = ?g1 # sevs @ [?g2]" by simp
  have ng: "\<And>c m ts r. GenerateResponseCall c m ts r \<notin> set sevs"
    using searchTrace_no_generate [OF sevs(2)] by blast
  show ?thesis
  proof (intro conjI allI impI)
    fix c m ts e assume "evs = [GenerateResponseCall c m ts (Inl e)]"
    with evs show "out = Returns (Inl (Errorf ''erro ao gerar resposta'' e))" by simp
  next
    fix c1 m1 ts1 r1 mid c m ts e
    assume "evs = GenerateResponseCall c1 m1 ts1 r1 # mid @ [GenerateResponseCall c m ts (Inl e)]"
    with evs have "res2 = Inl e" by simp
    with searched(9) show "out = Returns (Inl (Errorf ''erro ao gerar resposta final'' e))" by simp
  next
    fix c m ts e assume "GenerateResponseCall c m ts (Inl e) \<in> set evs"
    with evs ng have "res2 = Inl e" by auto
    with searched(9) show "\<exists>msg. out = Returns (Inl (Errorf msg e))" by simp
  next
    fix c m ts e resp assume "GenerateResponseCall c m ts (Inl e) \<in> set evs"
    with evs ng have "res2 = Inl e" by auto
    with searched(9) show "out \<noteq> Returns (Inr resp)" by simp
  qed
qed

theorem llm_failure_aborts_query_witness:
  "calls (snd (ask round2DownService)) =
     calls st0 @
       round1Call (Inr (toolCallsResponse [golangCall])) #
       [SearchCall (WithDeadline Background 10003000000) ''golang'' 5 (Inr (Some [goDocument]))] @
       [round2Call [toolMessage (''[{'' @ [CHR 0x22] @ ''title'' @ [CHR 0x22] @ '':'' @ [CHR 0x22]
                                   @ ''Go performance'' @ [CHR 0x22] @ ''}]'') ''call_1'']
          (Inl ErrLLMTimeout)]
   \<and> fst (fst (ask round2DownService)) =
       Returns (Inl (Errorf ''erro ao gerar resposta final'' ErrLLMTimeout))
   \<and> calls (snd (ask llmDownService)) = calls st0 @ [round1Call (Inl ErrLLMUnavailable)]
   \<and> fst (fst (ask llmDownService)) =
       Returns (Inl (Errorf ''erro ao gerar resposta'' ErrLLMUnavailable))"
proof -
  let ?tm = "toolMessage (''[{'' @ [CHR 0x22] @ ''title'' @ [CHR 0x22] @ '':'' @ [CHR 0x22]
                            @ ''Go performance'' @ [CHR 0x22] @ ''}]'') ''call_1''"
  have run2: "ProcessQuery round2DownService Background (Some (testRequest ''What is Go?'' 5)) st0 =
                ((fst (fst (ask round2DownService)), snd (fst (ask round2DownService))),
                 snd (ask round2DownService))"
    by (simp add: ask_def)
  have trace2: "calls (snd (ask round2DownService)) =
     calls st0 @
       (GenerateResponseCall Background [userMessage ''What is Go?''] [CreateSearchTool]
          (Inr (toolCallsResponse [golangCall])) #
        [SearchCall (WithDeadline Background 10003000000) ''golang'' 5 (Inr (Some [goDocument]))] @
        [GenerateResponseCall Background
           ([userMessage ''What is Go?'', assistantMessage []] @ [?tm]) []
           (Inl ErrLLMTimeout)])"
    by (simp add: service_defs test_defs toolMessage_def)
  have run1: "ProcessQuery llmDownService Background (Some (testRequest ''What is Go?'' 5)) st0 =
                ((fst (fst (ask llmDownService)), snd (fst (ask llmDownService))),
                 snd (ask llmDownService))"
    by (simp add: ask_def)
  have trace1: "calls (snd (ask llmDownService)) =
     calls st0 @ [GenerateResponseCall Background [userMessage ''What is Go?'']
                    [CreateSearchTool] (Inl ErrLLMUnavailable)]"
    by (simp add: service_defs test_defs)
  have a: "fst (fst (ask round2DownService)) =
             Returns (Inl (Errorf ''erro ao gerar resposta final'' ErrLLMTimeout))"
    by (rule llm_failure_aborts_query
              [OF run2 trace2, THEN conjunct2, THEN conjunct1, rule_format, OF refl])
  have b: "fst (fst (ask llmDownService)) =
             Returns (Inl (Errorf ''erro ao gerar resposta'' ErrLLMUnavailable))"
    by (rule llm_failure_aborts_query [OF run1 trace1, THEN conjunct1, rule_format, OF refl])
  from a b trace1 trace2 show ?thesis
    by (simp add: round1Call_def round2Call_def)
qed

subsection \<open>C7: an invalid document never reaches the store\<close>



subsection \<open>C8: the health check asks the store, then the LLM\<close>

text \<open>
  Claim C8. When the check of the store fails, \<open>HealthCheck\<close> returns that error wrapped
  with the message that names the repository, and the only call in the trace is the one to
  the store: the LLM is not asked. When the store is healthy, the LLM is asked next, after
  the store, and its verdict is the result. When both collaborators are healthy in every
  world, each of \<open>n\<close> invocations in a row returns no error.
\<close>

theorem HealthCheck_store_then_llm:
  "(\<forall>e w. repo_HealthCheck (docRepo s) ctx (world st) = (Some e, w) \<longrightarrow>
       HealthCheck s ctx st =
         (Some (Errorf (''reposit'' @ o_acute @ ''rio indispon'' @ i_acute @ ''vel'') e),
          st\<lparr>world := w, calls := calls st @ [RepoHealthCheckCall ctx (Some e)]\<rparr>))
   \<and> (\<forall>w r w'. repo_HealthCheck (docRepo s) ctx (world st) = (None, w) \<longrightarrow>
         client_HealthCheck (llmClient s) ctx w = (r, w') \<longrightarrow>
         HealthCheck s ctx st =
           (map_option (Errorf (''cliente LLM indispon'' @ i_acute @ ''vel'')) r,
            st\<lparr>world := w',
               calls := calls st @ [RepoHealthCheckCall ctx None, LLMHealthCheckCall ctx r]\<rparr>))
   \<and> ((\<forall>c w. fst (repo_HealthCheck (docRepo s) c w) = None
              \<and> fst (client_HealthCheck (llmClient s) c w) = None) \<longrightarrow>
        fst (HealthCheck_repeated s ctx n st) = replicate n None)"
  using HealthCheck_repo_failed [of s ctx st] HealthCheck_repo_ok [of s ctx st]
        HealthCheck_repeated_healthy [of s ctx n st]
  by blast

theorem HealthCheck_store_then_llm_witness:
  "repo_HealthCheck (docRepo repoDownService) Background (world st0) =
     (Some ErrRepositoryUnavailable, 0)
   \<and> HealthCheck repoDownService Background st0 =
       (Some (Errorf (''reposit'' @ o_acute @ ''rio indispon'' @ i_acute @ ''vel'')
                ErrRepositoryUnavailable),
        st0\<lparr>world := 0,
            calls := calls st0 @ [RepoHealthCheckCall Background (Some ErrRepositoryUnavailable)]\<rparr>)
   \<and> HealthCheck directService Background st0 =
       (None,
        st0\<lparr>world := 0,
            calls := calls st0 @ [RepoHealthCheckCall Background None,
                                  LLMHealthCheckCall Background None]\<rparr>)
   \<and> fst (HealthCheck_repeated directService Background 3 st0) = [None, None, None]"
proof -
  have down: "repo_HealthCheck (docRepo repoDownService) Background (world st0) =
                (Some ErrRepositoryUnavailable, 0)"
    by (simp add: test_defs)
  have up: "repo_HealthCheck (docRepo directService) Background (world st0) = (None, 0)"
    by (simp add: test_defs)
  have llm: "client_HealthCheck (llmClient directService) Background 0 = (None, 0)"
    by (simp add: test_defs)
  have healthy: "\<forall>c w. fst (repo_HealthCheck (docRepo directService) c w) = None
                   \<and> fst (client_HealthCheck (llmClient directService) c w) = None"
    by (simp add: test_defs)
  have three: "replicate 3 None = [None, None, None :: error option]"
    by (simp add: numeral_3_eq_3)
  from HealthCheck_store_then_llm [of repoDownService Background st0 3] down
  have a: "HealthCheck repoDownService Background st0 =
       (Some (Errorf (''reposit'' @ o_acute @ ''rio indispon'' @ i_acute @ ''vel'')
                ErrRepositoryUnavailable),
        st0\<lparr>world := 0,
            calls := calls st0 @ [RepoHealthCheckCall Background (Some ErrRepositoryUnavailable)]\<rparr>)"
    by blast
  from HealthCheck_store_then_llm [of directService Background st0 3] up llm
  have b: "HealthCheck directService Background st0 =
       (map_option (Errorf (''cliente LLM indispon'' @ i_acute @ ''vel'')) None,
        st0\<lparr>world := 0,
            calls := calls st0 @ [RepoHealthCheckCall Background None,
                                  LLMHealthCheckCall Background None]\<rparr>)"
    by blast
  from HealthCheck_store_then_llm [of directService Background st0 3] healthy
  have c: "fst (HealthCheck_repeated directService Background 3 st0) = replicate 3 None"
    by blast
  from a b c down three show ?thesis by simp
qed

subsection \<open>C9: validation only fills in the default of max-results\<close>

text \<open>
  Claim C9. The request after \<open>ProcessQuery\<close> is the request that \<open>validateRequest\<close>
  left. Validation keeps the query, the user and session identifiers, the category and the
  metadata; the request is either unchanged, or its max-results was not positive and is now
  the configured default and nothing else changed. When max-results is positive the
  request is unchanged.
\<close>

theorem validateRequest_frame:
  "snd (fst (ProcessQuery s ctx (Some req) st)) = snd (validateRequest s (Some req))
   \<and> (\<exists>r'. snd (validateRequest s (Some req)) = Some r'
        \<and> req_Query r' = req_Query req
        \<and> req_UserID r' = req_UserID req
        \<and> req_SessionID r' = req_SessionID req
        \<and> req_Category r' = req_Category req
        \<and> req_Metadata r' = req_Metadata req
        \<and> (r' = req \<or> (req_MaxResults req \<le> 0
              \<and> r' = req\<lparr>req_MaxResults := MaxSearchResults (config s)\<rparr>)))
   \<and> (0 < req_MaxResults req \<longrightarrow> snd (validateRequest s (Some req)) = Some req)"
  by (simp add: ProcessQuery_request validateRequest_Some)

theorem validateRequest_frame_witness:
  "snd (fst (ProcessQuery directService Background (Some (testRequest ''What is Go?'' 0)) st0)) =
     Some (testRequest ''What is Go?'' 5)
   \<and> 0 < req_MaxResults (testRequest ''What is Go?'' 7)
   \<and> snd (fst (ProcessQuery directService Background (Some (testRequest ''What is Go?'' 7)) st0)) =
       Some (testRequest ''What is Go?'' 7)"
proof -
  have pos: "0 < req_MaxResults (testRequest ''What is Go?'' 7)"
    by (simp add: testRequest_def)
  have filled: "snd (validateRequest directService (Some (testRequest ''What is Go?'' 0))) =
                  Some (testRequest ''What is Go?'' 5)"
    by (simp add: validateRequest_def test_defs)
  from validateRequest_frame [of directService Background "testRequest ''What is Go?'' 0" st0]
       validateRequest_frame [of directService Background "testRequest ''What is Go?'' 7" st0]
       pos filled
  show ?thesis by simp
qed

subsection \<open>C10: the flag without a search\<close>

text \<open>
  Claim C10. Let round 1 hold exactly one tool call, named \<open>search_metadata\<close>, whose
  arguments do not decode to a string field \<open>query\<close>, and let round 2 answer. Then
  \<open>ProcessQuery\<close> returns a response with \<open>search_performed = true\<close> and the \<open>nil\<close>
  source list, although the trace holds no search: round 2 is the only call after
  round 1. The example below is such a query.
\<close>

theorem search_performed_without_search:
  assumes run: "ProcessQuery s ctx req st = ((out, req'), st')"
      and trace: "calls st' = calls st @ GenerateResponseCall c m ts (Inr llmResp) # rest"
      and one: "llm_ToolCalls llmResp = [tc]"
      and name: "tc_Name tc = ''search_metadata''"
      and bad: "toolQuery (runtime s) tc = None"
      and round2: "rest \<noteq> []" "last rest = GenerateResponseCall c2 m2 ts2 (Inr final)"
  shows "\<exists>resp. out = Returns (Inr resp) \<and> resp_SearchPerformed resp
           \<and> resp_Sources resp = None
           \<and> rest = [GenerateResponseCall c2 m2 ts2 (Inr final)]
           \<and> (\<forall>c q l res. SearchCall c q l res \<notin> set rest)"
  using run
proof (cases rule: ProcessQuery_cases)
  case (invalid err)
  with trace show ?thesis by simp
next
  case (round1_failed r m e)
  with trace show ?thesis by simp
next
  case (answered r m' llmResp' resp)
  with trace have "llmResp' = llmResp" by simp
  with answered one show ?thesis by simp
next
  case (searched r m' llmResp' v0 st3 v st4 res2)
  let ?g1 = "GenerateResponseCall ctx [m'] [CreateSearchTool] (Inr llmResp')"
  let ?g2 = "GenerateResponseCall ctx (messages v) [] res2"
  from bad have "\<forall>x\<in>set [tc]. toolQuery (runtime s) x = None" by simp
  from toolCalls_skipped [OF this, of ctx r v0 st3] obtain stx where
    sk: "ProcessQuery_toolCalls s ctx r [tc] v0 st3 =
           (v0\<lparr>searchPerformed := searchPerformed v0 \<or> (\<exists>x\<in>set [tc]. tc_Name x = ''search_metadata'')\<rparr>, stx)"
        "calls stx = calls st3" by blast
  have "calls st' = calls st @ ?g1 # [] @ [?g2]"
  proof -
    from toolCalls_calls [OF searched(7)] obtain sevs where
      "calls st4 = calls st3 @ sevs" by blast
    with searched(4,8) trace have "llmResp' = llmResp" by simp
    with searched(7) one sk have "calls st4 = calls st3" by simp
    with searched(4,8) show ?thesis by simp
  qed
  with trace have eq: "llmResp' = llmResp" and rest: "rest = [?g2]" by auto
  from searched(7) eq one sk name searched(5)
  have v: "searchPerformed v" "sources v = None" by auto
  from rest round2 have "res2 = Inr final" "rest = [GenerateResponseCall c2 m2 ts2 (Inr final)]"
    by simp_all
  with searched(9) v rest show ?thesis by auto
qed

theorem search_performed_without_search_witness:
  "calls (snd (ask (toolService [brokenCall]))) =
     calls st0 @ round1Call (Inr (toolCallsResponse [brokenCall])) #
       [round2Call [] (Inr (textResponse ''final''))]
   \<and> llm_ToolCalls (toolCallsResponse [brokenCall]) = [brokenCall]
   \<and> tc_Name brokenCall = ''search_metadata''
   \<and> toolQuery (runtime (toolService [brokenCall])) brokenCall = None
   \<and> validateRequest (toolService [brokenCall]) (Some (testRequest ''What is Go?'' 5)) =
       (None, Some (testRequest ''What is Go?'' 5))
   \<and> (\<exists>resp. fst (fst (ask (toolService [brokenCall]))) = Returns (Inr resp)
          \<and> resp_SearchPerformed resp \<and> resp_Sources resp = None)
   \<and> (\<forall>c q l res. SearchCall c q l res \<notin> set (calls (snd (ask (toolService [brokenCall])))))"
proof -
  let ?S = "toolService [brokenCall]"
  let ?G2 = "GenerateResponseCall Background ([userMessage ''What is Go?'', assistantMessage []] @ [])
               [] (Inr (textResponse ''final''))"
  have run: "ProcessQuery ?S Background (Some (testRequest ''What is Go?'' 5)) st0 =
               ((fst (fst (ask ?S)), snd (fst (ask ?S))), snd (ask ?S))"
    by (simp add: ask_def)
  have trace: "calls (snd (ask ?S)) =
                 calls st0 @ GenerateResponseCall Background [userMessage ''What is Go?'']
                   [CreateSearchTool] (Inr (toolCallsResponse [brokenCall])) # [?G2]"
    by (simp add: service_defs test_defs)
  have one: "llm_ToolCalls (toolCallsResponse [brokenCall]) = [brokenCall]"
    by (simp add: toolCallsResponse_def)
  have name: "tc_Name brokenCall = ''search_metadata''"
    by (simp add: brokenCall_def searchCall_def)
  have bad: "toolQuery (runtime ?S) brokenCall = None"
    by (simp add: service_defs test_defs)
  have valid: "validateRequest ?S (Some (testRequest ''What is Go?'' 5)) =
                 (None, Some (testRequest ''What is Go?'' 5))"
    by (simp add: validateRequest_def test_defs)
  have r2: "[?G2] \<noteq> []" "last [?G2] = ?G2" by simp_all
  from search_performed_without_search [OF run trace one name bad r2]
  have "\<exists>resp. fst (fst (ask ?S)) = Returns (Inr resp)
          \<and> resp_SearchPerformed resp \<and> resp_Sources resp = None"
    by blast
  moreover from trace
  have "\<forall>c q l res. SearchCall c q l res \<notin> set (calls (snd (ask ?S)))"
    by (simp add: st0_def)
  ultimately show ?thesis using trace one name bad valid
    by (simp add: round1Call_def round2Call_def)
qed

end
